theory Spec2Isabelle
  imports Main
begin

section \<open>Strings of the source language\<close>

text \<open>
  A TypeScript string is a sequence of UTF-16 code units. The model writes a string as a
  \<^typ>\<open>string\<close> whose characters are the code units below 256 (the Latin-1 range);
  every literal of the source is ASCII.
\<close>

text \<open>\<^verbatim>\<open>String.prototype.toLowerCase\<close> on one code unit of the Latin-1 range: the
  upper-case letters are A-Z, U+00C0-U+00D6 and U+00D8-U+00DE, each 32 below its
  lower-case form; every other code unit is left as it is.\<close>

definition lower_char :: "char \<Rightarrow> char" where
  "lower_char c =
     (let n = (of_char c :: nat)
      in if (65 \<le> n \<and> n \<le> 90) \<or> (192 \<le> n \<and> n \<le> 214) \<or> (216 \<le> n \<and> n \<le> 222)
         then char_of (n + 32) else c)"

definition toLowerCase :: "string \<Rightarrow> string" where
  "toLowerCase s = map lower_char s"

text \<open>The class \<^verbatim>\<open>\s\<close> of a JavaScript regular expression, on the Latin-1 range:
  tab, line feed, vertical tab, form feed, carriage return, space and no-break space.\<close>

definition is_space :: "char \<Rightarrow> bool" where
  "is_space c = ((of_char c :: nat) \<in> {9, 10, 11, 12, 13, 32, 160})"

text \<open>\<^verbatim>\<open>s.replace(/\s+/g, '-')\<close>: every maximal run of white space becomes one hyphen.
  The flag says whether the previous code unit belonged to a run already replaced.\<close>

fun replace_runs :: "bool \<Rightarrow> string \<Rightarrow> string" where
  "replace_runs in_run [] = []"
| "replace_runs in_run (c # cs) =
     (if is_space c
      then (if in_run then replace_runs True cs else CHR ''-'' # replace_runs True cs)
      else c # replace_runs False cs)"

definition replace_spaces :: "string \<Rightarrow> string" where
  "replace_spaces s = replace_runs False s"

text \<open>An interpolation \<^verbatim>\<open>${e}\<close> of a template literal: \<^verbatim>\<open>undefined\<close> prints as
  the text ``undefined''.\<close>

fun interpolate :: "string option \<Rightarrow> string" where
  "interpolate None = ''undefined''"
| "interpolate (Some s) = s"

text \<open>\<^verbatim>\<open>String.prototype.includes\<close>, used to read flags.\<close>

fun starts_with :: "string \<Rightarrow> string \<Rightarrow> bool" where
  "starts_with s [] = True"
| "starts_with [] (p # ps) = False"
| "starts_with (c # cs) (p # ps) = (c = p \<and> starts_with cs ps)"

fun includes_str :: "string \<Rightarrow> string \<Rightarrow> bool" where
  "includes_str [] p = (p = [])"
| "includes_str (c # cs) p = (starts_with (c # cs) p \<or> includes_str cs p)"


section \<open>Data model (\<^verbatim>\<open>src/lib/mockData.ts\<close>)\<close>

datatype RiskLevel = high | medium | low

text \<open>The \<^verbatim>\<open>status\<close> of a stored shipment; the prefix keeps its values apart from the
  approval states of an order.\<close>

datatype ShipmentStatus = status_pending | status_approved | status_rejected | status_under_review

record ShipmentRecord =
  sr_id :: string
  sr_date :: string
  sr_shipper :: string
  sr_importer :: string
  sr_commodity :: string
  sr_origin :: string
  sr_value :: int
  sr_riskLevel :: RiskLevel
  sr_riskScore :: int
  sr_flags :: "string list"
  sr_status :: ShipmentStatus

datatype Sentiment = negative | neutral | positive

record NewsItem =
  ni_date :: string
  ni_source :: string
  ni_headline :: string
  ni_sentiment :: Sentiment
  ni_excerpt :: string

record TradingPattern =
  tp_commodity :: string
  tp_frequency :: int
  tp_lastShipment :: string
  tp_normalOrigins :: "string list"

record BlacklistStatus =
  list60B :: bool
  approvedManufacturer :: bool
  otherFlags :: "string list"

datatype EntityType = shipper | importer | manufacturer

record EntityProfile =
  ep_id :: string
  ep_name :: string
  ep_type :: EntityType
  ep_riskLevel :: RiskLevel
  ep_riskScore :: int
  ep_country :: string
  ep_registrationDate :: string
  ep_lastActivity :: string
  ep_blacklistStatus :: BlacklistStatus
  ep_newsItems :: "NewsItem list"
  ep_tradingPatterns :: "TradingPattern list"

text \<open>The value \<^verbatim>\<open>generateAIAssessment\<close> returns; \<^verbatim>\<open>entityChecks\<close> is an object
  literal, kept as the list of its properties in source order.\<close>

record RiskAssessment =
  riskLevel :: RiskLevel
  riskScore :: int
  flags :: "string list"
  entityChecks :: "(string \<times> string) list"
  recommendations :: "string list"
  patternAnalysis :: string
  aiInsights :: string

text \<open>The argument of \<^verbatim>\<open>generateAIAssessment\<close> is a \<^verbatim>\<open>Record<string, string>\<close>: a
  property that is absent reads as \<^verbatim>\<open>undefined\<close>.\<close>

type_synonym ShipmentData = "string \<rightharpoonup> string"


section \<open>The hardcoded assessment (\<^verbatim>\<open>generateAIAssessment\<close>)\<close>

definition soccer_balls_china :: RiskAssessment where
  "soccer_balls_china = \<lparr>
     riskLevel = high,
     riskScore = 87,
     flags = [
       ''Commodity Origin Mismatch - 70% of soccer balls are manufactured in Pakistan'',
       ''Unusual shipping route detected'',
       ''Price point below market average''],
     entityChecks = [
       (''shipper'', ''Clean - No blacklist entries''),
       (''importer'', ''Warning - Recently changed business address''),
       (''manufacturer'', ''Not on approved manufacturer list for this commodity'')],
     recommendations = [
       ''Request additional documentation on manufacturing origin'',
       ''Verify importer's business registration and address change'',
       ''Consider physical inspection of cargo'',
       ''Require manufacturer certification''],
     patternAnalysis = ''Shipper typically handles auto parts (95% of shipments). This commodity represents significant deviation from normal trading pattern.'',
     aiInsights = ''This shipment exhibits multiple red flags that warrant careful review. The combination of commodity-origin mismatch, unusual shipper behavior, and lack of manufacturer certification suggests elevated risk.''
   \<rparr>"

definition default_response :: RiskAssessment where
  "default_response = \<lparr>
     riskLevel = medium,
     riskScore = 45,
     flags = [
       ''Standard commodity routing'',
       ''All parties cleared in basic checks''],
     entityChecks = [
       (''shipper'', ''Clean - No issues found''),
       (''importer'', ''Clean - No issues found''),
       (''manufacturer'', ''Verified'')],
     recommendations = [
       ''Proceed with standard documentation review'',
       ''No additional inspection required''],
     patternAnalysis = ''Trading pattern consistent with historical data.'',
     aiInsights = ''This shipment appears standard with no significant risk indicators detected.''
   \<rparr>"

text \<open>The object \<^verbatim>\<open>responses\<close>, built anew by every call. A key computed below always
  holds a hyphen, so it never names a property inherited from \<^verbatim>\<open>Object.prototype\<close>.\<close>

definition responses :: "(string \<times> RiskAssessment) list" where
  "responses = [(''soccer-balls-china'', soccer_balls_china), (''default'', default_response)]"

definition assessment_key :: "ShipmentData \<Rightarrow> string" where
  "assessment_key shipmentData =
     interpolate (map_option (replace_spaces \<circ> toLowerCase) (shipmentData ''commodity''))
     @ ''-'' @
     interpolate (map_option toLowerCase (shipmentData ''origin''))"

text \<open>\<^verbatim>\<open>responses[key] || responses['default']\<close>: an entry is an object, hence truthy; a key
  that is absent reads as \<^verbatim>\<open>undefined\<close> (\<^term>\<open>None\<close>), and then the right operand is the
  value. The function has no \<^verbatim>\<open>throw\<close> and reads no other property of its argument.\<close>

definition generateAIAssessment :: "ShipmentData \<Rightarrow> RiskAssessment option" where
  "generateAIAssessment shipmentData =
     (let key = assessment_key shipmentData
      in case map_of responses key of
           Some r \<Rightarrow> Some r
         | None \<Rightarrow> map_of responses ''default'')"


section \<open>Calls and the objects they return\<close>

text \<open>A call of \<^verbatim>\<open>generateAIAssessment\<close> evaluates the object literal \<^verbatim>\<open>responses\<close> in its
  body, so it creates both entries anew and hands one of them to the caller by reference.
  The caller may then write to that object. The store is the list of the entry objects
  created so far, a reference is a position in it, and an entry stands for the object with
  the arrays it alone owns.\<close>

type_synonym heap = "RiskAssessment list"

definition alloc :: "RiskAssessment \<Rightarrow> heap \<Rightarrow> nat \<times> heap" where
  "alloc v h = (length h, h @ [v])"

definition deref :: "heap \<Rightarrow> nat \<Rightarrow> RiskAssessment option" where
  "deref h a = (if a < length h then Some (h ! a) else None)"

text \<open>A write by the caller to an object it holds, such as \<^verbatim>\<open>result.riskScore = 0\<close>.\<close>

definition assign :: "nat \<Rightarrow> RiskAssessment \<Rightarrow> heap \<Rightarrow> heap" where
  "assign a v h = (if a < length h then h[a := v] else h)"

text \<open>The call on a store: the two entries are created in the order of the literal, the
  table holds their references, and the lookup is the one of \<^term>\<open>generateAIAssessment\<close>.\<close>

definition generateAIAssessment_call :: "ShipmentData \<Rightarrow> heap \<Rightarrow> nat option \<times> heap" where
  "generateAIAssessment_call shipmentData h =
     (let (a1, h1) = alloc soccer_balls_china h;
          (a2, h2) = alloc default_response h1;
          table = [(''soccer-balls-china'', a1), (''default'', a2)];
          key = assessment_key shipmentData
      in (case map_of table key of
            Some a \<Rightarrow> Some a
          | None \<Rightarrow> map_of table ''default'', h2))"

text \<open>The value the caller sees when the call returns.\<close>

definition returned :: "nat option \<times> heap \<Rightarrow> RiskAssessment option" where
  "returned res = (case fst res of None \<Rightarrow> None | Some a \<Rightarrow> deref (snd res) a)"

text \<open>What a caller may leave in the object it was handed.\<close>

definition tampered :: RiskAssessment where
  "tampered = soccer_balls_china\<lparr>riskScore := 0, flags := [], recommendations := [''Release'']\<rparr>"


section \<open>The built-in datasets (\<^verbatim>\<open>mockShipments\<close>, \<^verbatim>\<open>mockEntities\<close>)\<close>

definition mockShipments :: "ShipmentRecord list" where
  "mockShipments = [
     \<lparr>sr_id = ''SHP-2024-001'', sr_date = ''2024-11-15'', sr_shipper = ''Global Trade Corp'',
      sr_importer = ''Mexico Imports SA'', sr_commodity = ''Soccer Balls'', sr_origin = ''China'',
      sr_value = 45000, sr_riskLevel = high, sr_riskScore = 87,
      sr_flags = [''Commodity Origin Mismatch'', ''Unusual Route''],
      sr_status = status_under_review\<rparr>,
     \<lparr>sr_id = ''SHP-2024-002'', sr_date = ''2024-11-14'', sr_shipper = ''Pacific Logistics Ltd'',
      sr_importer = ''Automotive Parts MX'', sr_commodity = ''Auto Parts'', sr_origin = ''Japan'',
      sr_value = 125000, sr_riskLevel = low, sr_riskScore = 15,
      sr_flags = [], sr_status = status_approved\<rparr>,
     \<lparr>sr_id = ''SHP-2024-003'', sr_date = ''2024-11-14'', sr_shipper = ''Eastern Trading Co'',
      sr_importer = ''TechnoMex Solutions'', sr_commodity = ''Electronics'', sr_origin = ''Taiwan'',
      sr_value = 89000, sr_riskLevel = low, sr_riskScore = 22,
      sr_flags = [], sr_status = status_approved\<rparr>,
     \<lparr>sr_id = ''SHP-2024-004'', sr_date = ''2024-11-13'', sr_shipper = ''Flores International'',
      sr_importer = ''Decoraciones Mexico'', sr_commodity = ''Hibiscus Flowers'',
      sr_origin = ''Colombia'', sr_value = 12000, sr_riskLevel = medium, sr_riskScore = 58,
      sr_flags = [''Origin Anomaly - Expected Nigeria''],
      sr_status = status_under_review\<rparr>,
     \<lparr>sr_id = ''SHP-2024-005'', sr_date = ''2024-11-13'', sr_shipper = ''Textiles Global'',
      sr_importer = ''Fashion MX'', sr_commodity = ''Textiles'', sr_origin = ''India'',
      sr_value = 67000, sr_riskLevel = low, sr_riskScore = 18,
      sr_flags = [], sr_status = status_approved\<rparr>,
     \<lparr>sr_id = ''SHP-2024-006'', sr_date = ''2024-11-12'', sr_shipper = ''Rapid Shift Logistics'',
      sr_importer = ''Juguetes Mexico'', sr_commodity = ''Toys'', sr_origin = ''Vietnam'',
      sr_value = 34000, sr_riskLevel = medium, sr_riskScore = 64,
      sr_flags = [''Shipper on 60B List'', ''Unusual Commodity Change''],
      sr_status = status_rejected\<rparr>,
     \<lparr>sr_id = ''SHP-2024-007'', sr_date = ''2024-11-12'', sr_shipper = ''Euro Shipping AG'',
      sr_importer = ''Maquinaria Industrial MX'', sr_commodity = ''Machinery'',
      sr_origin = ''Germany'', sr_value = 245000, sr_riskLevel = low, sr_riskScore = 12,
      sr_flags = [], sr_status = status_approved\<rparr>,
     \<lparr>sr_id = ''SHP-2024-008'', sr_date = ''2024-11-11'', sr_shipper = ''Asia Commerce Ltd'',
      sr_importer = ''ElectroMex SA'', sr_commodity = ''Consumer Electronics'',
      sr_origin = ''South Korea'', sr_value = 98000, sr_riskLevel = low, sr_riskScore = 20,
      sr_flags = [], sr_status = status_approved\<rparr>]"

definition ENT_001 :: EntityProfile where
  "ENT_001 = \<lparr>
     ep_id = ''ENT-001'', ep_name = ''Global Trade Corp'', ep_type = shipper,
     ep_riskLevel = high, ep_riskScore = 87, ep_country = ''China'',
     ep_registrationDate = ''2018-03-15'', ep_lastActivity = ''2024-11-15'',
     ep_blacklistStatus = \<lparr>list60B = False, approvedManufacturer = True,
       otherFlags = [''Previous customs violations'']\<rparr>,
     ep_newsItems = [
       \<lparr>ni_date = ''2024-09-12'', ni_source = ''Trade Compliance News'',
        ni_headline = ''Global Trade Corp faces customs investigation in Brazil'',
        ni_sentiment = negative,
        ni_excerpt = ''Authorities have launched an investigation into alleged documentation irregularities...''\<rparr>,
       \<lparr>ni_date = ''2024-06-05'', ni_source = ''Business Wire'',
        ni_headline = ''Company expands operations to Southeast Asia'',
        ni_sentiment = neutral,
        ni_excerpt = ''Global Trade Corp announces new distribution centers in Thailand and Vietnam...''\<rparr>],
     ep_tradingPatterns = [
       \<lparr>tp_commodity = ''Auto Parts'', tp_frequency = 45, tp_lastShipment = ''2024-10-28'',
        tp_normalOrigins = [''China'', ''Japan'']\<rparr>,
       \<lparr>tp_commodity = ''Soccer Balls'', tp_frequency = 2, tp_lastShipment = ''2024-11-15'',
        tp_normalOrigins = [''Pakistan'']\<rparr>]\<rparr>"

definition ENT_002 :: EntityProfile where
  "ENT_002 = \<lparr>
     ep_id = ''ENT-002'', ep_name = ''Rapid Shift Logistics'', ep_type = shipper,
     ep_riskLevel = high, ep_riskScore = 92, ep_country = ''Panama'',
     ep_registrationDate = ''2020-08-22'', ep_lastActivity = ''2024-11-12'',
     ep_blacklistStatus = \<lparr>list60B = True, approvedManufacturer = False,
       otherFlags = [''Tax evasion investigation'', ''Shell company indicators'']\<rparr>,
     ep_newsItems = [
       \<lparr>ni_date = ''2024-10-18'', ni_source = ''Latin America Financial Times'',
        ni_headline = ''Panama authorities investigate Rapid Shift for tax fraud'',
        ni_sentiment = negative,
        ni_excerpt = ''The company is under investigation for alleged tax evasion schemes involving offshore accounts...''\<rparr>,
       \<lparr>ni_date = ''2024-08-02'', ni_source = ''Global Trade Alert'',
        ni_headline = ''Rapid Shift linked to suspicious cargo incidents'',
        ni_sentiment = negative,
        ni_excerpt = ''Multiple customs agencies report irregularities in shipments handled by the logistics firm...''\<rparr>],
     ep_tradingPatterns = [
       \<lparr>tp_commodity = ''Toys'', tp_frequency = 8, tp_lastShipment = ''2024-11-12'',
        tp_normalOrigins = [''China'', ''Vietnam'']\<rparr>,
       \<lparr>tp_commodity = ''Electronics'', tp_frequency = 3, tp_lastShipment = ''2024-09-20'',
        tp_normalOrigins = [''China'']\<rparr>]\<rparr>"

definition ENT_003 :: EntityProfile where
  "ENT_003 = \<lparr>
     ep_id = ''ENT-003'', ep_name = ''Pacific Logistics Ltd'', ep_type = shipper,
     ep_riskLevel = low, ep_riskScore = 15, ep_country = ''Japan'',
     ep_registrationDate = ''2010-05-10'', ep_lastActivity = ''2024-11-14'',
     ep_blacklistStatus = \<lparr>list60B = False, approvedManufacturer = True, otherFlags = []\<rparr>,
     ep_newsItems = [
       \<lparr>ni_date = ''2024-10-05'', ni_source = ''Asian Business Review'',
        ni_headline = ''Pacific Logistics wins excellence award for compliance'',
        ni_sentiment = positive,
        ni_excerpt = ''The company has been recognized for its outstanding track record in international trade compliance...''\<rparr>,
       \<lparr>ni_date = ''2024-07-15'', ni_source = ''Logistics Today'',
        ni_headline = ''Pacific Logistics expands green shipping initiatives'',
        ni_sentiment = positive,
        ni_excerpt = ''New environmentally-friendly fleet reduces carbon emissions by 30%...''\<rparr>],
     ep_tradingPatterns = [
       \<lparr>tp_commodity = ''Auto Parts'', tp_frequency = 120, tp_lastShipment = ''2024-11-14'',
        tp_normalOrigins = [''Japan'', ''South Korea'']\<rparr>,
       \<lparr>tp_commodity = ''Machinery'', tp_frequency = 45, tp_lastShipment = ''2024-11-10'',
        tp_normalOrigins = [''Japan'', ''Germany'']\<rparr>]\<rparr>"

definition ENT_004 :: EntityProfile where
  "ENT_004 = \<lparr>
     ep_id = ''ENT-004'', ep_name = ''Flores International'', ep_type = shipper,
     ep_riskLevel = medium, ep_riskScore = 58, ep_country = ''Colombia'',
     ep_registrationDate = ''2015-11-03'', ep_lastActivity = ''2024-11-13'',
     ep_blacklistStatus = \<lparr>list60B = False, approvedManufacturer = True,
       otherFlags = [''Minor documentation issues'']\<rparr>,
     ep_newsItems = [
       \<lparr>ni_date = ''2024-08-20'', ni_source = ''Agriculture Trade News'',
        ni_headline = ''Flores International expands flower export operations'',
        ni_sentiment = positive,
        ni_excerpt = ''Company increases production capacity to meet growing international demand...''\<rparr>],
     ep_tradingPatterns = [
       \<lparr>tp_commodity = ''Hibiscus Flowers'', tp_frequency = 24, tp_lastShipment = ''2024-11-13'',
        tp_normalOrigins = [''Colombia'', ''Ecuador'']\<rparr>,
       \<lparr>tp_commodity = ''Roses'', tp_frequency = 56, tp_lastShipment = ''2024-11-12'',
        tp_normalOrigins = [''Colombia'']\<rparr>]\<rparr>"

definition mockEntities :: "EntityProfile list" where
  "mockEntities = [ENT_001, ENT_002, ENT_003, ENT_004]"


section \<open>The order page (\<^verbatim>\<open>src/pages/CreateOrder.tsx\<close>)\<close>

datatype ApprovalStatus = pending_approval | auto_approved | approved | rejected

record EntityRiskSummary =
  name :: string
  country :: string
  entity_type :: string
  risk_level :: RiskLevel
  risk_score :: int
  is_blacklisted :: bool
  ers_flags :: "string list"
  news_summary :: "string option"

record OrderAssessmentResponse =
  order_id :: string
  overall_risk_level :: RiskLevel
  overall_risk_score :: int
  requires_approval :: bool
  approval_status :: ApprovalStatus
  shipper_assessment :: EntityRiskSummary
  buyer_assessment :: EntityRiskSummary
  oa_flags :: "string list"
  oa_recommendations :: "string list"
  ai_summary :: string

record OrderForm =
  shipper_name :: string
  shipper_country :: string
  buyer_name :: string
  buyer_country :: string
  of_commodity :: string
  of_origin :: string
  of_value :: string
  order_reference :: string

text \<open>A notification of the \<^verbatim>\<open>toast\<close> library: the method called, the title and the
  description.\<close>

datatype ToastKind = toast_success | toast_error | toast_warning | toast_info

record Toast =
  kind :: ToastKind
  title :: string
  description :: string

text \<open>The state of the component (\<^verbatim>\<open>useState\<close>), with the notifications shown so far:
  they are the only effect of the three handlers below.\<close>

record CreateOrderState =
  formData :: OrderForm
  isChecking :: bool
  checkStep :: nat
  assessment :: "OrderAssessmentResponse option"
  toasts :: "Toast list"

definition handleApprove :: "CreateOrderState \<Rightarrow> CreateOrderState" where
  "handleApprove st = st\<lparr>toasts := toasts st @
     [\<lparr>kind = toast_success, title = ''Order approved'',
       description = ''Order has been approved and can proceed''\<rparr>]\<rparr>"

definition handleReject :: "CreateOrderState \<Rightarrow> CreateOrderState" where
  "handleReject st = st\<lparr>toasts := toasts st @
     [\<lparr>kind = toast_error, title = ''Order rejected'',
       description = ''Order has been rejected''\<rparr>]\<rparr>"

definition handleEscalate :: "CreateOrderState \<Rightarrow> CreateOrderState" where
  "handleEscalate st = st\<lparr>toasts := toasts st @
     [\<lparr>kind = toast_info, title = ''Escalated to Legal'',
       description = ''Order has been sent to legal department for review''\<rparr>]\<rparr>"

text \<open>The buttons of the card ``Approval Actions'': rendered when an assessment is shown
  and its \<^verbatim>\<open>requires_approval\<close> is true; \<^verbatim>\<open>approval_status\<close> is not consulted.\<close>

datatype ApprovalAction = Approve | Reject | Escalate

definition approval_actions :: "CreateOrderState \<Rightarrow> ApprovalAction list" where
  "approval_actions st =
     (case assessment st of
        None \<Rightarrow> []
      | Some a \<Rightarrow> if requires_approval a then [Approve, Reject, Escalate] else [])"

text \<open>The \<^verbatim>\<open>onClick\<close> of each button.\<close>

fun click :: "ApprovalAction \<Rightarrow> CreateOrderState \<Rightarrow> CreateOrderState" where
  "click Approve st = handleApprove st"
| "click Reject st = handleReject st"
| "click Escalate st = handleEscalate st"


section \<open>Reading flags\<close>

text \<open>The source names an origin mismatch ``Commodity Origin Mismatch'' and a listing on
  the tax list ``Shipper on 60B List''; a flag is read by the words it holds.\<close>

definition is_origin_mismatch_flag :: "string \<Rightarrow> bool" where
  "is_origin_mismatch_flag f =
     (includes_str (toLowerCase f) ''origin mismatch''
      \<or> includes_str (toLowerCase f) ''origin anomaly'')"


text \<open>Requests used as concrete inputs below: the end-to-end request of the shipper on
  the tax list, a request that names no shipper and no importer, and the empty request.\<close>

definition rapid_shift_request :: ShipmentData where
  "rapid_shift_request = map_of [
     (''shipper'', ''Rapid Shift Logistics''), (''importer'', ''Juguetes Mexico''),
     (''commodity'', ''Toys''), (''origin'', ''Vietnam'')]"

definition soccer_request :: ShipmentData where
  "soccer_request = map_of [
     (''shipper'', ''Global Trade Corp''), (''importer'', ''Mexico Imports SA''),
     (''commodity'', ''Soccer Balls''), (''origin'', ''China'')]"

definition soccer_pakistan_request :: ShipmentData where
  "soccer_pakistan_request = map_of [
     (''shipper'', ''Global Trade Corp''), (''importer'', ''Mexico Imports SA''),
     (''commodity'', ''Soccer Balls''), (''origin'', ''Pakistan'')]"

definition partyless_request :: ShipmentData where
  "partyless_request = map_of [(''commodity'', ''Soccer Balls''), (''origin'', ''China'')]"

definition empty_request :: ShipmentData where
  "empty_request = map_of []"

text \<open>An order that the service reports as approved already while still asking for
  approval, shown on the order page.\<close>

definition approved_order :: OrderAssessmentResponse where
  "approved_order = \<lparr>
     order_id = ''ORD-1'', overall_risk_level = high, overall_risk_score = 92,
     requires_approval = True, approval_status = approved,
     shipper_assessment = \<lparr>name = ''Rapid Shift Logistics'', country = ''Panama'',
       entity_type = ''shipper'', risk_level = high, risk_score = 92, is_blacklisted = True,
       ers_flags = [''Shipper on 60B List''], news_summary = None\<rparr>,
     buyer_assessment = \<lparr>name = ''Juguetes Mexico'', country = ''Mexico'',
       entity_type = ''importer'', risk_level = low, risk_score = 10, is_blacklisted = False,
       ers_flags = [], news_summary = None\<rparr>,
     oa_flags = [''Shipper on 60B List''], oa_recommendations = [], ai_summary = []\<rparr>"

definition approved_order_state :: CreateOrderState where
  "approved_order_state = \<lparr>
     formData = \<lparr>shipper_name = ''Rapid Shift Logistics'', shipper_country = ''Panama'',
       buyer_name = ''Juguetes Mexico'', buyer_country = ''Mexico'', of_commodity = ''Toys'',
       of_origin = ''Vietnam'', of_value = [], order_reference = []\<rparr>,
     isChecking = False, checkStep = 0, assessment = Some approved_order, toasts = []\<rparr>"

text \<open>Two strings are case variants of each other when they have the same length and, at
  each position, the same code unit or a letter and its lower-case form.\<close>

definition same_letter :: "char \<Rightarrow> char \<Rightarrow> bool" where
  "same_letter a b = (a = b \<or> lower_char a = b \<or> a = lower_char b)"

definition case_variant :: "string \<Rightarrow> string \<Rightarrow> bool" where
  "case_variant s t = list_all2 same_letter s t"


section \<open>The scoring engine of the specification\<close>

text \<open>Modelled from the spec: the function from a score to a level. The TypeScript sources
  hold levels as literals only; the Python service that derives them is not among them.
  The thresholds are those of section 4.4: a score of at least 70 is high, of at least
  30 and below 70 is medium, below 30 is low.\<close>

definition threshold_level :: "int \<Rightarrow> RiskLevel" where
  "threshold_level s = (if s \<ge> 70 then high else if s \<ge> 30 then medium else low)"

text \<open>Modelled from the spec: \<^verbatim>\<open>EntityRiskProfile\<close> and \<^verbatim>\<open>resolve(entity, newsItems)\<close> of
  section 4.4, which belong to the Python service behind \<^verbatim>\<open>/api/entities/research\<close>;
  the TypeScript sources only relay its answer. The score adds 50 for \<^verbatim>\<open>onTaxList\<close> (the field \<^verbatim>\<open>list60B\<close> of the
  source), 15 for a manufacturer that is not an approved manufacturer, 10 for each entry
  of \<^verbatim>\<open>otherFlags\<close>, and 8 for each news item of negative sentiment, the news adding at
  most 24; the sum is capped at 100. The specification does not say which flags a profile
  carries, so the profile keeps the entity's \<^verbatim>\<open>otherFlags\<close> and nothing else.\<close>

record EntityRiskProfile =
  p_riskLevel :: RiskLevel
  p_riskScore :: int
  p_flags :: "string list"
  isBlacklisted :: bool

definition negative_news :: "NewsItem list \<Rightarrow> int" where
  "negative_news newsItems = int (length (filter (\<lambda>n. ni_sentiment n = negative) newsItems))"

definition profile_score :: "EntityProfile \<Rightarrow> NewsItem list \<Rightarrow> int" where
  "profile_score entity newsItems =
     (let b = ep_blacklistStatus entity
      in min 100
           ((if list60B b then 50 else 0)
            + (if ep_type entity = manufacturer \<and> \<not> approvedManufacturer b then 15 else 0)
            + 10 * int (length (otherFlags b))
            + min 24 (8 * negative_news newsItems)))"

definition resolve :: "EntityProfile \<Rightarrow> NewsItem list \<Rightarrow> EntityRiskProfile" where
  "resolve entity newsItems =
     (let score = profile_score entity newsItems
      in \<lparr>p_riskLevel = threshold_level score,
          p_riskScore = score,
          p_flags = otherFlags (ep_blacklistStatus entity),
          isBlacklisted = list60B (ep_blacklistStatus entity)\<rparr>)"

text \<open>Modelled from the spec: the creation step of the order state machine of section 4.6,
  which belongs to the Python service behind \<^verbatim>\<open>/api/orders/create\<close>; the TypeScript
  sources only relay its answer. Both parties are resolved, the overall score is the larger of the two profile scores,
  the level follows the shared thresholds, and the order is approved automatically exactly
  when the level is low, neither party is blacklisted and there is no anomaly flag. The
  anomaly flags come from the commodity and origin check of section 4.2 and are an
  argument here.\<close>

record OrderAssessment =
  orderId :: string
  overallRiskLevel :: RiskLevel
  overallRiskScore :: int
  requiresApproval :: bool
  approvalStatus :: ApprovalStatus
  shipperAssessment :: EntityRiskProfile
  buyerAssessment :: EntityRiskProfile
  anomalyFlags :: "string list"

definition createOrder ::
  "string \<Rightarrow> EntityProfile \<Rightarrow> NewsItem list \<Rightarrow> EntityProfile \<Rightarrow> NewsItem list \<Rightarrow> string list
     \<Rightarrow> OrderAssessment" where
  "createOrder oid shipperEntity shipperNews buyerEntity buyerNews anomalies =
     (let shipperProfile = resolve shipperEntity shipperNews;
          buyerProfile = resolve buyerEntity buyerNews;
          score = max (p_riskScore shipperProfile) (p_riskScore buyerProfile);
          level = threshold_level score;
          auto = (level = low \<and> \<not> isBlacklisted shipperProfile
                  \<and> \<not> isBlacklisted buyerProfile \<and> anomalies = [])
      in \<lparr>orderId = oid,
          overallRiskLevel = level,
          overallRiskScore = score,
          requiresApproval = (\<not> auto),
          approvalStatus = (if auto then auto_approved else pending_approval),
          shipperAssessment = shipperProfile,
          buyerAssessment = buyerProfile,
          anomalyFlags = anomalies\<rparr>)"


section \<open>Facts about the key and the table\<close>

lemma map_of_responses:
  "map_of responses k =
     (if k = ''soccer-balls-china'' then Some soccer_balls_china
      else if k = ''default'' then Some default_response else None)"
  by (simp add: responses_def)

lemma generateAIAssessment_key:
  "generateAIAssessment d =
     (if assessment_key d = ''soccer-balls-china'' then Some soccer_balls_china
      else Some default_response)"
  by (simp add: generateAIAssessment_def map_of_responses Let_def)

lemma generateAIAssessment_cases:
  "generateAIAssessment d = Some soccer_balls_china \<or> generateAIAssessment d = Some default_response"
  by (simp add: generateAIAssessment_key)

lemma assessment_key_cong:
  "d1 ''commodity'' = d2 ''commodity'' \<Longrightarrow> d1 ''origin'' = d2 ''origin'' \<Longrightarrow>
   assessment_key d1 = assessment_key d2"
  by (simp add: assessment_key_def)

lemma lower_char_idem: "lower_char (lower_char c) = lower_char c"
  unfolding lower_char_def Let_def by (auto simp: of_char_of)

lemma same_letter_lower: "same_letter a b \<Longrightarrow> lower_char a = lower_char b"
  by (auto simp: same_letter_def lower_char_idem)

lemma case_variant_lower: "case_variant s t \<Longrightarrow> toLowerCase s = toLowerCase t"
  unfolding case_variant_def toLowerCase_def
  by (induction s t rule: list_all2_induct) (auto dest: same_letter_lower)

lemma lower_soccer_balls: "replace_spaces (toLowerCase ''Soccer Balls'') = ''soccer-balls''"
  by code_simp

lemma lower_china: "toLowerCase ''China'' = ''china''"
  by code_simp

lemma lower_pakistan: "toLowerCase ''Pakistan'' = ''pakistan''"
  by code_simp



lemma key_soccer_china:
  "d ''commodity'' = Some ''Soccer Balls'' \<Longrightarrow> d ''origin'' = Some ''China'' \<Longrightarrow>
   assessment_key d = ''soccer-balls-china''"
  by (simp add: assessment_key_def lower_soccer_balls lower_china)

lemma key_soccer_pakistan:
  "d ''commodity'' = Some ''Soccer Balls'' \<Longrightarrow> d ''origin'' = Some ''Pakistan'' \<Longrightarrow>
   assessment_key d = ''soccer-balls-pakistan''"
  by (simp add: assessment_key_def lower_soccer_balls lower_pakistan)


lemma key_missing:
  assumes "d ''commodity'' = None \<or> d ''commodity'' = Some [] \<or>
           d ''origin'' = None \<or> d ''origin'' = Some []"
  shows "assessment_key d \<noteq> ''soccer-balls-china''"
proof
  assume k: "assessment_key d = ''soccer-balls-china''"
  from assms consider (c) "d ''commodity'' = None \<or> d ''commodity'' = Some []"
    | (o) "d ''origin'' = None \<or> d ''origin'' = Some []" by blast
  then show False
  proof cases
    case c
    then have "hd (assessment_key d) \<noteq> CHR ''s''"
      by (auto simp: assessment_key_def replace_spaces_def toLowerCase_def)
    with k show False by simp
  next
    case o
    then have "last (assessment_key d) \<noteq> CHR ''a''"
      by (auto simp: assessment_key_def toLowerCase_def)
    with k show False by simp
  qed
qed

lemma soccer_flags_mismatch:
  "list_ex (\<lambda>f. is_origin_mismatch_flag f \<and> includes_str f ''Pakistan'') (flags soccer_balls_china)"
  unfolding soccer_balls_china_def by code_simp

lemma default_flags_no_mismatch:
  "\<not> list_ex is_origin_mismatch_flag (flags default_response)"
  unfolding default_response_def by code_simp



lemma call_unfold:
  "generateAIAssessment_call d h =
     (if assessment_key d = ''soccer-balls-china'' then Some (length h) else Some (Suc (length h)),
      h @ [soccer_balls_china, default_response])"
  by (simp add: generateAIAssessment_call_def alloc_def Let_def)

lemma returned_call: "returned (generateAIAssessment_call d h) = generateAIAssessment d"
  by (simp add: call_unfold returned_def deref_def generateAIAssessment_key nth_append)


section \<open>Requests with missing fields\<close>

text \<open>C1, as stated, fails: \<^verbatim>\<open>generateAIAssessment\<close> has no validation. The empty request
  gets the default assessment with its score of 45, and a request that names neither a
  shipper nor an importer gets the full Soccer Balls entry with its score of 87.\<close>

theorem generateAIAssessment_missing_fields_counterexample:
  "generateAIAssessment empty_request = Some default_response
   \<and> riskScore default_response = 45
   \<and> partyless_request ''shipper'' = None \<and> partyless_request ''importer'' = None
   \<and> generateAIAssessment partyless_request = Some soccer_balls_china
   \<and> riskScore soccer_balls_china = 87"
proof -
  have "assessment_key empty_request = ''undefined-undefined''"
    by (simp add: assessment_key_def empty_request_def)
  then have "generateAIAssessment empty_request = Some default_response"
    by (simp add: generateAIAssessment_key)
  moreover have "generateAIAssessment partyless_request = Some soccer_balls_china"
    by (simp add: generateAIAssessment_key key_soccer_china partyless_request_def)
  moreover have "partyless_request ''shipper'' = None \<and> partyless_request ''importer'' = None"
    by (simp add: partyless_request_def)
  ultimately show ?thesis
    by (simp add: default_response_def soccer_balls_china_def)
qed

text \<open>C1 (amended): \<^verbatim>\<open>generateAIAssessment\<close> never fails. Every request gets one of the two
  complete entries of the table; a request whose commodity or origin is absent or empty
  gets the default entry; the shipper and the importer are never read, so setting or
  removing them changes nothing.\<close>

theorem generateAIAssessment_never_fails:
  "(generateAIAssessment d = Some soccer_balls_china \<or> generateAIAssessment d = Some default_response)
   \<and> (d ''commodity'' = None \<or> d ''commodity'' = Some [] \<or>
        d ''origin'' = None \<or> d ''origin'' = Some []
        \<longrightarrow> generateAIAssessment d = Some default_response)
   \<and> generateAIAssessment (d(''shipper'' := x, ''importer'' := y)) = generateAIAssessment d"
proof (intro conjI impI)
  show "generateAIAssessment d = Some soccer_balls_china \<or> generateAIAssessment d = Some default_response"
    by (rule generateAIAssessment_cases)
next
  assume "d ''commodity'' = None \<or> d ''commodity'' = Some [] \<or>
          d ''origin'' = None \<or> d ''origin'' = Some []"
  then have "assessment_key d \<noteq> ''soccer-balls-china''" by (rule key_missing)
  then show "generateAIAssessment d = Some default_response"
    by (simp add: generateAIAssessment_key)
next
  have "assessment_key (d(''shipper'' := x, ''importer'' := y)) = assessment_key d"
    by (rule assessment_key_cong) simp_all
  then show "generateAIAssessment (d(''shipper'' := x, ''importer'' := y)) = generateAIAssessment d"
    by (simp add: generateAIAssessment_key)
qed

text \<open>The amended C1 at the empty request and at the Soccer Balls request stripped of its
  parties.\<close>

theorem generateAIAssessment_never_fails_witness:
  "empty_request ''commodity'' = None
   \<and> generateAIAssessment empty_request = Some default_response
   \<and> generateAIAssessment (soccer_request(''shipper'' := None, ''importer'' := None))
       = generateAIAssessment soccer_request"
  using generateAIAssessment_never_fails [of empty_request]
        generateAIAssessment_never_fails [of soccer_request None None]
  by (simp add: empty_request_def)


section \<open>Soccer balls\<close>

text \<open>C2: for every request whose commodity is ``Soccer Balls'' and whose origin is
  ``China'', the result has the level high and a flag that names an origin mismatch and
  mentions Pakistan; for every request whose commodity is ``Soccer Balls'' and whose origin
  is ``Pakistan'', no flag of the result names an origin mismatch.\<close>

theorem soccer_balls_origin_flag:
  "(d ''commodity'' = Some ''Soccer Balls'' \<and> d ''origin'' = Some ''China'' \<longrightarrow>
      (\<exists>r. generateAIAssessment d = Some r \<and> riskLevel r = high \<and>
           (\<exists>f \<in> set (flags r). is_origin_mismatch_flag f \<and> includes_str f ''Pakistan''))) \<and>
   (d ''commodity'' = Some ''Soccer Balls'' \<and> d ''origin'' = Some ''Pakistan'' \<longrightarrow>
      (\<exists>r. generateAIAssessment d = Some r \<and>
           (\<forall>f \<in> set (flags r). \<not> is_origin_mismatch_flag f)))"
proof (intro conjI impI)
  assume "d ''commodity'' = Some ''Soccer Balls'' \<and> d ''origin'' = Some ''China''"
  then have "generateAIAssessment d = Some soccer_balls_china"
    by (simp add: generateAIAssessment_key key_soccer_china)
  moreover have "riskLevel soccer_balls_china = high"
    by (simp add: soccer_balls_china_def)
  moreover have "\<exists>f \<in> set (flags soccer_balls_china).
                   is_origin_mismatch_flag f \<and> includes_str f ''Pakistan''"
    using soccer_flags_mismatch by (simp add: list_ex_iff)
  ultimately show "\<exists>r. generateAIAssessment d = Some r \<and> riskLevel r = high \<and>
           (\<exists>f \<in> set (flags r). is_origin_mismatch_flag f \<and> includes_str f ''Pakistan'')"
    by blast
next
  assume "d ''commodity'' = Some ''Soccer Balls'' \<and> d ''origin'' = Some ''Pakistan''"
  then have "generateAIAssessment d = Some default_response"
    by (simp add: generateAIAssessment_key key_soccer_pakistan)
  moreover have "\<forall>f \<in> set (flags default_response). \<not> is_origin_mismatch_flag f"
    using default_flags_no_mismatch by (simp add: list_ex_iff)
  ultimately show "\<exists>r. generateAIAssessment d = Some r \<and>
           (\<forall>f \<in> set (flags r). \<not> is_origin_mismatch_flag f)"
    by blast
qed

text \<open>C2 at the end-to-end request of the specification and at its Pakistan variant.\<close>

theorem soccer_balls_origin_flag_witness:
  "soccer_request ''commodity'' = Some ''Soccer Balls'' \<and> soccer_request ''origin'' = Some ''China''
   \<and> (\<exists>r. generateAIAssessment soccer_request = Some r \<and> riskLevel r = high \<and>
           (\<exists>f \<in> set (flags r). is_origin_mismatch_flag f \<and> includes_str f ''Pakistan''))
   \<and> soccer_pakistan_request ''commodity'' = Some ''Soccer Balls''
   \<and> soccer_pakistan_request ''origin'' = Some ''Pakistan''
   \<and> (\<exists>r. generateAIAssessment soccer_pakistan_request = Some r \<and>
           (\<forall>f \<in> set (flags r). \<not> is_origin_mismatch_flag f))"
proof -
  have a: "soccer_request ''commodity'' = Some ''Soccer Balls'' \<and> soccer_request ''origin'' = Some ''China''"
    by (simp add: soccer_request_def)
  have b: "soccer_pakistan_request ''commodity'' = Some ''Soccer Balls''
           \<and> soccer_pakistan_request ''origin'' = Some ''Pakistan''"
    by (simp add: soccer_pakistan_request_def)
  show ?thesis
    using a b soccer_balls_origin_flag [of soccer_request]
      soccer_balls_origin_flag [of soccer_pakistan_request]
    by blast
qed


section \<open>Score and level\<close>

text \<open>C3: every result of \<^verbatim>\<open>generateAIAssessment\<close> has a score between 0 and 100 and a
  level equal to the threshold mapping of that score; the mapping sends 70 to high, 69 and
  30 to medium, and 29 to low.\<close>

theorem generateAIAssessment_score_level:
  "(\<exists>r. generateAIAssessment d = Some r \<and> 0 \<le> riskScore r \<and> riskScore r \<le> 100
        \<and> riskLevel r = threshold_level (riskScore r))
   \<and> threshold_level 70 = high \<and> threshold_level 69 = medium
   \<and> threshold_level 30 = medium \<and> threshold_level 29 = low"
proof -
  have s: "0 \<le> riskScore soccer_balls_china \<and> riskScore soccer_balls_china \<le> 100
           \<and> riskLevel soccer_balls_china = threshold_level (riskScore soccer_balls_china)"
    by (simp add: soccer_balls_china_def threshold_level_def)
  have t: "0 \<le> riskScore default_response \<and> riskScore default_response \<le> 100
           \<and> riskLevel default_response = threshold_level (riskScore default_response)"
    by (simp add: default_response_def threshold_level_def)
  have "\<exists>r. generateAIAssessment d = Some r \<and> 0 \<le> riskScore r \<and> riskScore r \<le> 100
        \<and> riskLevel r = threshold_level (riskScore r)"
    using generateAIAssessment_cases [of d] s t by auto
  then show ?thesis by (simp add: threshold_level_def)
qed

text \<open>C3 at the request of the shipper on the tax list.\<close>

theorem generateAIAssessment_score_level_witness:
  "\<exists>r. generateAIAssessment rapid_shift_request = Some r \<and> 0 \<le> riskScore r
       \<and> riskScore r \<le> 100 \<and> riskLevel r = threshold_level (riskScore r)"
  using generateAIAssessment_score_level [of rapid_shift_request] by simp


section \<open>The shipper on the tax list\<close>



section \<open>Order creation\<close>

text \<open>C5: at order creation the order is approved automatically, with no approval
  required, exactly when the overall level is low, neither party is blacklisted and there
  is no anomaly flag; in every other case, and so whenever a party is on the tax list, it
  is pending approval with approval required. The overall level is low exactly when both
  parties' levels are low.\<close>

theorem createOrder_approval:
  "approvalStatus (createOrder oid s sn b bn fl) =
     (if overallRiskLevel (createOrder oid s sn b bn fl) = low
         \<and> \<not> isBlacklisted (shipperAssessment (createOrder oid s sn b bn fl))
         \<and> \<not> isBlacklisted (buyerAssessment (createOrder oid s sn b bn fl))
         \<and> fl = []
      then auto_approved else pending_approval)
   \<and> requiresApproval (createOrder oid s sn b bn fl) =
       (approvalStatus (createOrder oid s sn b bn fl) = pending_approval)
   \<and> (list60B (ep_blacklistStatus s) \<or> list60B (ep_blacklistStatus b) \<longrightarrow>
        approvalStatus (createOrder oid s sn b bn fl) = pending_approval
        \<and> requiresApproval (createOrder oid s sn b bn fl))
   \<and> (overallRiskLevel (createOrder oid s sn b bn fl) = low \<longleftrightarrow>
        p_riskLevel (resolve s sn) = low \<and> p_riskLevel (resolve b bn) = low)"
  by (auto simp: createOrder_def Let_def resolve_def threshold_level_def max_def)

text \<open>C5 at an order between two clean parties and at an order whose shipper is on the tax
  list.\<close>

theorem createOrder_approval_witness:
  "approvalStatus (createOrder ''ORD-1'' ENT_003 (ep_newsItems ENT_003) ENT_003 [] []) = auto_approved
   \<and> \<not> requiresApproval (createOrder ''ORD-1'' ENT_003 (ep_newsItems ENT_003) ENT_003 [] [])
   \<and> list60B (ep_blacklistStatus ENT_002)
   \<and> approvalStatus (createOrder ''ORD-2'' ENT_002 (ep_newsItems ENT_002) ENT_003 [] []) = pending_approval
   \<and> requiresApproval (createOrder ''ORD-2'' ENT_002 (ep_newsItems ENT_002) ENT_003 [] [])"
proof -
  let ?a = "createOrder ''ORD-1'' ENT_003 (ep_newsItems ENT_003) ENT_003 [] []"
  let ?b = "createOrder ''ORD-2'' ENT_002 (ep_newsItems ENT_002) ENT_003 [] []"
  have h: "list60B (ep_blacklistStatus ENT_002)" by (simp add: ENT_002_def)
  have l: "overallRiskLevel ?a = low \<and> \<not> isBlacklisted (shipperAssessment ?a)
           \<and> \<not> isBlacklisted (buyerAssessment ?a)"
    by (simp add: createOrder_def Let_def resolve_def profile_score_def negative_news_def
        threshold_level_def ENT_003_def)
  note A = createOrder_approval [of "''ORD-1''" ENT_003 "ep_newsItems ENT_003" ENT_003 "[]" "[]"]
  note B = createOrder_approval [of "''ORD-2''" ENT_002 "ep_newsItems ENT_002" ENT_003 "[]" "[]"]
  from A l have a1: "approvalStatus ?a = auto_approved" by metis
  with A have a2: "\<not> requiresApproval ?a" by simp
  from B h have b: "approvalStatus ?b = pending_approval \<and> requiresApproval ?b" by blast
  from a1 a2 h b show ?thesis by blast
qed


section \<open>Entities on the tax list\<close>

text \<open>C7: resolving an entity that is on the tax list gives a profile that is blacklisted
  and scores at least 50 (and at most 100, so never the level low).\<close>

theorem resolve_tax_list:
  "list60B (ep_blacklistStatus entity) \<Longrightarrow>
   isBlacklisted (resolve entity newsItems) \<and> 50 \<le> p_riskScore (resolve entity newsItems)
   \<and> p_riskScore (resolve entity newsItems) \<le> 100
   \<and> p_riskLevel (resolve entity newsItems) \<noteq> low"
  by (simp add: resolve_def Let_def profile_score_def negative_news_def threshold_level_def)

text \<open>C7 at the entity ENT-002, Rapid Shift Logistics, with its own news items.\<close>

theorem resolve_tax_list_witness:
  "list60B (ep_blacklistStatus ENT_002)
   \<and> isBlacklisted (resolve ENT_002 (ep_newsItems ENT_002))
   \<and> 50 \<le> p_riskScore (resolve ENT_002 (ep_newsItems ENT_002))
   \<and> p_riskScore (resolve ENT_002 (ep_newsItems ENT_002)) = 86"
proof -
  have h: "list60B (ep_blacklistStatus ENT_002)" by (simp add: ENT_002_def)
  have "p_riskScore (resolve ENT_002 (ep_newsItems ENT_002)) = 86"
    by (simp add: resolve_def Let_def profile_score_def negative_news_def ENT_002_def)
  with h resolve_tax_list [OF h, of "ep_newsItems ENT_002"] show ?thesis by simp
qed


section \<open>Approval actions on the order page\<close>

text \<open>C6, as stated, fails: for an order that is approved already, the page offers the
  three actions (its \<^verbatim>\<open>requires_approval\<close> is true), and \<^verbatim>\<open>handleApprove\<close> completes and
  reports ``Order approved''; nothing fails.\<close>

theorem handleApprove_approved_counterexample:
  "approval_status approved_order = approved
   \<and> assessment approved_order_state = Some approved_order
   \<and> approval_actions approved_order_state = [Approve, Reject, Escalate]
   \<and> click Approve approved_order_state =
       approved_order_state\<lparr>toasts :=
         [\<lparr>kind = toast_success, title = ''Order approved'',
           description = ''Order has been approved and can proceed''\<rparr>]\<rparr>"
  by (simp add: approved_order_def approved_order_state_def approval_actions_def handleApprove_def)

text \<open>C6 (amended): an approval action is offered exactly when the assessment shown has
  \<^verbatim>\<open>requires_approval\<close> set, whatever its \<^verbatim>\<open>approval_status\<close>. In every state, each of
  \<^verbatim>\<open>handleApprove\<close>, \<^verbatim>\<open>handleReject\<close> and \<^verbatim>\<open>handleEscalate\<close> completes, adds one
  notification and leaves the assessment, hence the order's \<^verbatim>\<open>approval_status\<close>, and the
  rest of the state as they were; the actions offered stay the same.\<close>

theorem click_keeps_order:
  "assessment (click a st) = assessment st
   \<and> formData (click a st) = formData st
   \<and> isChecking (click a st) = isChecking st
   \<and> checkStep (click a st) = checkStep st
   \<and> length (toasts (click a st)) = Suc (length (toasts st))
   \<and> approval_actions (click a st) = approval_actions st
   \<and> (a \<in> set (approval_actions st) \<longleftrightarrow>
        (\<exists>r. assessment st = Some r \<and> requires_approval r))"
proof -
  have shown: "a \<in> set (approval_actions st) \<longleftrightarrow>
        (\<exists>r. assessment st = Some r \<and> requires_approval r)"
    by (cases "assessment st"; cases a) (simp_all add: approval_actions_def)
  have kept: "assessment (click a st) = assessment st
   \<and> formData (click a st) = formData st
   \<and> isChecking (click a st) = isChecking st
   \<and> checkStep (click a st) = checkStep st
   \<and> length (toasts (click a st)) = Suc (length (toasts st))"
    by (cases a) (simp_all add: handleApprove_def handleReject_def handleEscalate_def)
  then have "approval_actions (click a st) = approval_actions st"
    by (simp add: approval_actions_def)
  with shown kept show ?thesis by blast
qed

text \<open>The amended C6 at the approved order: rejecting it is offered and leaves it
  approved.\<close>

theorem click_keeps_order_witness:
  "Reject \<in> set (approval_actions approved_order_state)
   \<and> assessment (click Reject approved_order_state) = Some approved_order
   \<and> map_option approval_status (assessment (click Reject approved_order_state)) = Some approved"
proof -
  have a: "assessment approved_order_state = Some approved_order"
    by (simp add: approved_order_state_def)
  have r: "requires_approval approved_order \<and> approval_status approved_order = approved"
    by (simp add: approved_order_def)
  from click_keeps_order [of Reject approved_order_state] a r show ?thesis by simp
qed


section \<open>Determinism\<close>

text \<open>C8: two calls of \<^verbatim>\<open>generateAIAssessment\<close> with the same request return the same
  assessment, one of the two complete entries, whatever the store each call starts from:
  the second call may start from the store the first one left, after the caller wrote to
  the object it was handed. Each call returns a reference to an object it has created
  itself, and leaves the objects that were there as they were.\<close>

theorem generateAIAssessment_call_deterministic:
  "(\<exists>r. returned (generateAIAssessment_call d h) = Some r
        \<and> returned (generateAIAssessment_call d h') = Some r
        \<and> riskScore r \<in> {45, 87})
   \<and> (\<exists>a. fst (generateAIAssessment_call d h) = Some a \<and> length h \<le> a)
   \<and> take (length h) (snd (generateAIAssessment_call d h)) = h"
proof -
  have "riskScore soccer_balls_china = 87" "riskScore default_response = 45"
    by (simp_all add: soccer_balls_china_def default_response_def)
  then have "\<exists>r. generateAIAssessment d = Some r \<and> riskScore r \<in> {45, 87}"
    using generateAIAssessment_cases [of d] by auto
  then have "\<exists>r. returned (generateAIAssessment_call d h) = Some r
        \<and> returned (generateAIAssessment_call d h') = Some r \<and> riskScore r \<in> {45, 87}"
    by (simp add: returned_call)
  moreover have "\<exists>a. fst (generateAIAssessment_call d h) = Some a \<and> length h \<le> a"
    by (simp add: call_unfold)
  moreover have "take (length h) (snd (generateAIAssessment_call d h)) = h"
    by (simp add: call_unfold)
  ultimately show ?thesis by blast
qed

text \<open>C8 at the Soccer Balls request: the first call returns the Soccer Balls entry, the
  caller overwrites it, and the second call returns the Soccer Balls entry again.\<close>

theorem generateAIAssessment_call_deterministic_witness:
  "fst (generateAIAssessment_call soccer_request []) = Some 0
   \<and> returned (generateAIAssessment_call soccer_request []) = Some soccer_balls_china
   \<and> deref (assign 0 tampered (snd (generateAIAssessment_call soccer_request []))) 0 = Some tampered
   \<and> returned (generateAIAssessment_call soccer_request
        (assign 0 tampered (snd (generateAIAssessment_call soccer_request []))))
       = Some soccer_balls_china"
proof -
  have k: "assessment_key soccer_request = ''soccer-balls-china''"
    by (rule key_soccer_china) (simp_all add: soccer_request_def)
  have g: "generateAIAssessment soccer_request = Some soccer_balls_china"
    using k by (simp add: generateAIAssessment_key)
  have f: "fst (generateAIAssessment_call soccer_request []) = Some 0"
    using k by (simp add: call_unfold)
  have t: "deref (assign 0 tampered (snd (generateAIAssessment_call soccer_request []))) 0 = Some tampered"
    by (simp add: call_unfold deref_def assign_def)
  from generateAIAssessment_call_deterministic
         [of soccer_request "[]" "assign 0 tampered (snd (generateAIAssessment_call soccer_request []))"]
  obtain r where r: "returned (generateAIAssessment_call soccer_request []) = Some r"
    "returned (generateAIAssessment_call soccer_request
        (assign 0 tampered (snd (generateAIAssessment_call soccer_request [])))) = Some r"
    by blast
  from r(1) g have "r = soccer_balls_china" by (simp add: returned_call)
  with r f t show ?thesis by simp
qed


section \<open>Letter case\<close>

text \<open>C9: replacing the commodity, the origin or both by a case variant of the same string
  gives the same assessment.\<close>

theorem generateAIAssessment_case_insensitive:
  "(d ''commodity'' = Some c \<and> case_variant c c' \<longrightarrow>
      generateAIAssessment (d(''commodity'' \<mapsto> c')) = generateAIAssessment d)
   \<and> (d ''origin'' = Some g \<and> case_variant g g' \<longrightarrow>
      generateAIAssessment (d(''origin'' \<mapsto> g')) = generateAIAssessment d)
   \<and> (d ''commodity'' = Some c \<and> case_variant c c' \<and> d ''origin'' = Some g \<and> case_variant g g' \<longrightarrow>
      generateAIAssessment (d(''commodity'' \<mapsto> c', ''origin'' \<mapsto> g')) = generateAIAssessment d)"
proof -
  have c: "assessment_key (d(''commodity'' \<mapsto> c')) = assessment_key d"
    if "d ''commodity'' = Some c" and "case_variant c c'"
    using that case_variant_lower [of c c'] by (simp add: assessment_key_def)
  have g: "assessment_key (d(''origin'' \<mapsto> g')) = assessment_key d"
    if "d ''origin'' = Some g" and "case_variant g g'"
    using that case_variant_lower [of g g'] by (simp add: assessment_key_def)
  have b: "assessment_key (d(''commodity'' \<mapsto> c', ''origin'' \<mapsto> g')) = assessment_key d"
    if "d ''commodity'' = Some c" and "case_variant c c'"
      and "d ''origin'' = Some g" and "case_variant g g'"
    using that case_variant_lower [of c c'] case_variant_lower [of g g']
    by (simp add: assessment_key_def)
  from c g b show ?thesis by (simp add: generateAIAssessment_key)
qed

text \<open>C9 at the Soccer Balls request written with other capitals.\<close>

theorem generateAIAssessment_case_insensitive_witness:
  "soccer_request ''commodity'' = Some ''Soccer Balls''
   \<and> case_variant ''Soccer Balls'' ''SOCCER balls''
   \<and> soccer_request ''origin'' = Some ''China''
   \<and> case_variant ''China'' ''cHINA''
   \<and> generateAIAssessment (soccer_request(''commodity'' \<mapsto> ''SOCCER balls'', ''origin'' \<mapsto> ''cHINA''))
       = Some soccer_balls_china"
proof -
  have a: "soccer_request ''commodity'' = Some ''Soccer Balls''"
    and b: "soccer_request ''origin'' = Some ''China''"
    by (simp_all add: soccer_request_def)
  have v: "case_variant ''Soccer Balls'' ''SOCCER balls''"
    and w: "case_variant ''China'' ''cHINA''"
    by code_simp+
  have "generateAIAssessment soccer_request = Some soccer_balls_china"
    using a b by (simp add: generateAIAssessment_key key_soccer_china)
  with generateAIAssessment_case_insensitive
         [of soccer_request "''Soccer Balls''" "''SOCCER balls''" "''China''" "''cHINA''"]
       a b v w
  show ?thesis by simp
qed


section \<open>The datasets\<close>

text \<open>C10: every record of \<^verbatim>\<open>mockShipments\<close> and of \<^verbatim>\<open>mockEntities\<close> has a score
  between 0 and 100 and the level that the threshold mapping gives that score.\<close>

theorem mock_data_consistent:
  "(\<forall>r \<in> set mockShipments. 0 \<le> sr_riskScore r \<and> sr_riskScore r \<le> 100
       \<and> sr_riskLevel r = threshold_level (sr_riskScore r))
   \<and> (\<forall>e \<in> set mockEntities. 0 \<le> ep_riskScore e \<and> ep_riskScore e \<le> 100
       \<and> ep_riskLevel e = threshold_level (ep_riskScore e))"
  by (simp add: mockShipments_def mockEntities_def ENT_001_def ENT_002_def ENT_003_def
      ENT_004_def threshold_level_def)

text \<open>C10 at the shipment SHP-2024-006 and the entity ENT-002.\<close>

theorem mock_data_consistent_witness:
  "sr_riskLevel (mockShipments ! 5) = threshold_level (sr_riskScore (mockShipments ! 5))
   \<and> sr_riskScore (mockShipments ! 5) = 64
   \<and> ep_riskLevel ENT_002 = threshold_level (ep_riskScore ENT_002)"
proof -
  have a: "mockShipments ! 5 \<in> set mockShipments"
    by (simp add: mockShipments_def)
  have b: "ENT_002 \<in> set mockEntities"
    by (simp add: mockEntities_def)
  have c: "sr_riskScore (mockShipments ! 5) = 64"
    by (simp add: mockShipments_def)
  from mock_data_consistent a b c show ?thesis by blast
qed

end
